theory Spec2Isabelle
  imports Main "HOL-Library.Word"
begin

unbundle bit_operations_syntax

section \<open>The QWX-IOE expansion board driver (qwx_ioe_driver.c)\<close>

text \<open>
  The driver is a Linux I2C client driver. It exposes three digital outputs and two RFID
  readers of one expansion board as misc character devices. Its five functions of
  interest are the file operations \<open>output_read\<close>, \<open>output_write\<close> and \<open>reader_read\<close> and
  the lifecycle hooks \<open>probe\<close> and \<open>remove\<close>.

  What the kernel does for the driver is not part of the repository: the I2C core
  (\<open>i2c_master_send\<close>, \<open>i2c_master_recv\<close>), the misc core (\<open>misc_register\<close>,
  \<open>misc_deregister\<close>), the allocator (\<open>devm_kzalloc\<close>) and the user copies
  (\<open>copy_to_user\<close>, \<open>copy_from_user\<close>). Each is modelled as an explicit environment:
  a log of the calls the driver makes, and an oracle that fixes what each call answers.
  Values the C code reads before writing them (uninitialised locals) are parameters of
  the model.
\<close>

subsection \<open>Constants\<close>

definition OUTPUTS_COUNT :: nat where
  "OUTPUTS_COUNT = 3"

definition READERS_COUNT :: nat where
  "READERS_COUNT = 2"

text \<open>Kernel constants used by the driver (\<open>linux/mod_devicetable.h\<close>,
  \<open>linux/miscdevice.h\<close>, \<open>errno.h\<close>).\<close>

definition I2C_NAME_SIZE :: nat where
  "I2C_NAME_SIZE = 20"

definition MISC_DYNAMIC_MINOR :: int where
  "MISC_DYNAMIC_MINOR = 255"

definition EFAULT :: int where
  "EFAULT = 14"

definition EIO :: int where
  "EIO = 5"

type_synonym byte = "8 word"

subsection \<open>Faults\<close>

text \<open>
  Ways in which the C code can leave defined behaviour: reading past the end of a string,
  dereferencing the result of \<open>container_of\<close> applied with the wrong member, and
  dereferencing the \<open>NULL\<close> a failed allocation returns.
\<close>

datatype fault = Out_of_bounds | Wild_pointer | Null_pointer

subsection \<open>The I2C bus\<close>

text \<open>
  The bus is a log of the transfers requested so far (oldest first). The \<open>adapter\<close> of a
  client is the oracle: applied to the log that ends with the transfer being made, it
  answers \<open>Inl e\<close> when the transfer fails with the negative errno \<open>e\<close>, and \<open>Inr bs\<close> when
  it succeeds (for a receive, \<open>bs\<close> are the bytes the peer sent).
\<close>

datatype i2c_op = Master_send "byte list" | Master_recv nat

record i2c_client =
  addr :: "16 word"
  adapter :: "i2c_op list \<Rightarrow> int + byte list"

text \<open>A C array is a map from index to cell; \<open>poke\<close> stores a list at its start.\<close>

definition poke :: "(nat \<Rightarrow> byte) \<Rightarrow> byte list \<Rightarrow> (nat \<Rightarrow> byte)" where
  "poke mem bs = (\<lambda>i. if i < length bs then bs ! i else mem i)"

definition i2c_master_send :: "i2c_client \<Rightarrow> byte list \<Rightarrow> i2c_op list \<Rightarrow> int \<times> i2c_op list" where
  "i2c_master_send client buf tr =
     (let tr' = tr @ [Master_send buf]
      in (case adapter client tr' of Inl e \<Rightarrow> (e, tr') | Inr _ \<Rightarrow> (int (length buf), tr')))"

text \<open>A failed receive leaves the buffer as it was.\<close>

definition i2c_master_recv ::
  "i2c_client \<Rightarrow> (nat \<Rightarrow> byte) \<Rightarrow> nat \<Rightarrow> i2c_op list \<Rightarrow> (int \<times> (nat \<Rightarrow> byte)) \<times> i2c_op list" where
  "i2c_master_recv client buf count tr =
     (let tr' = tr @ [Master_recv count]
      in (case adapter client tr' of
            Inl e \<Rightarrow> ((e, buf), tr')
          | Inr bs \<Rightarrow> ((int count, poke buf (take count bs)), tr')))"

subsection \<open>User memory\<close>

text \<open>
  A user pointer is \<open>None\<close> when the access faults, and \<open>Some bs\<close> when it points to
  accessible memory holding \<open>bs\<close>. Both copies return the number of bytes not copied.
\<close>

type_synonym user_mem = "byte list option"

definition copy_to_user :: "user_mem \<Rightarrow> byte list \<Rightarrow> nat \<times> user_mem" where
  "copy_to_user buffer data =
     (case buffer of
        None \<Rightarrow> (length data, None)
      | Some old \<Rightarrow> (0, Some (data @ drop (length data) old)))"

definition copy_from_user :: "user_mem \<Rightarrow> nat \<Rightarrow> nat \<times> byte list" where
  "copy_from_user buffer n =
     (case buffer of
        None \<Rightarrow> (n, [])
      | Some bs \<Rightarrow> (if n \<le> length bs then (0, take n bs) else (n, [])))"

subsection \<open>Devices and files\<close>

datatype file_operations = outputs_fops | readers_fops

record miscdevice =
  minor :: int
  name :: string
  fops :: "file_operations option"

text \<open>\<open>struct expansion_dev\<close>; its \<open>name\<close> field is \<open>ename\<close> here, as \<open>name\<close> is the
  field of \<open>miscdevice\<close>. The unused field \<open>device\<close> is left out.\<close>

record expansion_dev =
  client :: i2c_client
  outputs :: "nat \<Rightarrow> miscdevice"
  readers :: "nat \<Rightarrow> miscdevice"
  ename :: string

text \<open>A \<open>slot\<close> is the address of one element of the two arrays: \<open>&device->outputs[k]\<close>
  or \<open>&device->readers[k]\<close>.\<close>

datatype slot = Outputs nat | Readers nat

text \<open>
  Of \<open>struct file\<close> the driver reads the name of the directory entry
  (\<open>file->f_path.dentry->d_name.name\<close>) and \<open>private_data\<close>, which the misc core sets to
  the \<open>miscdevice\<close> that was opened.
\<close>

record struct_file =
  d_name :: string
  private_data :: slot

text \<open>
  \<open>unsigned short int output = file->f_path.dentry->d_name.name[1] - '0'\<close>: the second
  character of the NUL-terminated name (an \<open>unsigned char\<close>), minus 48, converted to 16
  bits.
\<close>

definition name_index :: "struct_file \<Rightarrow> fault + 16 word" where
  "name_index f =
     (case d_name f of
        [] \<Rightarrow> Inl Out_of_bounds
      | [_] \<Rightarrow> Inr (word_of_int (0 - 48))
      | _ # c # _ \<Rightarrow> Inr (word_of_int (of_char c - 48)))"

text \<open>
  \<open>container_of(file->private_data, struct expansion_dev, outputs[output])\<close> is the
  device exactly when \<open>private_data\<close> is the element with that index; otherwise it points
  elsewhere, and reading \<open>device->client\<close> through it is a fault.
\<close>

definition container_of_outputs :: "expansion_dev \<Rightarrow> struct_file \<Rightarrow> 16 word \<Rightarrow> fault + expansion_dev" where
  "container_of_outputs dev f output =
     (if private_data f = Outputs (unat output) then Inr dev else Inl Wild_pointer)"

definition container_of_readers :: "expansion_dev \<Rightarrow> struct_file \<Rightarrow> 16 word \<Rightarrow> fault + expansion_dev" where
  "container_of_readers dev f reader =
     (if private_data f = Readers (unat reader) then Inr dev else Inl Wild_pointer)"

text \<open>What a file operation leaves behind: its return value, the file position, the
  user's memory and the bus log.\<close>

record fop_result =
  retval :: int
  pos :: int
  user :: user_mem
  trace :: "i2c_op list"

subsection \<open>Formatting\<close>

fun digits :: "nat \<Rightarrow> string" where
  "digits n = (if n < 10 then [char_of (48 + n)] else digits (n div 10) @ [char_of (48 + n mod 10)])"

declare digits.simps [simp del]

text \<open>The conversion \<open>%d\<close>.\<close>

definition decimal :: "int \<Rightarrow> string" where
  "decimal i = (if i < 0 then CHR ''-'' # digits (nat (- i)) else digits (nat i))"

text \<open>\<open>snprintf(buf, n, ...)\<close> keeps at most \<open>n - 1\<close> characters.\<close>

definition snprintf :: "nat \<Rightarrow> string \<Rightarrow> string" where
  "snprintf n s = take (n - 1) s"

subsection \<open>File operations\<close>

text \<open>\<open>output_read\<close>. The local \<open>response\<close> is not initialised: its first value is a
  parameter. The \<open>count\<close> of the caller is overwritten by \<open>sizeof(data) = 3\<close>.\<close>

definition output_read ::
  "expansion_dev \<Rightarrow> struct_file \<Rightarrow> user_mem \<Rightarrow> nat \<Rightarrow> int \<Rightarrow> byte \<Rightarrow> i2c_op list \<Rightarrow> fault + fop_result" where
  "output_read dev file buffer count f_pos response tr =
     (case name_index file of
        Inl flt \<Rightarrow> Inl flt
      | Inr output \<Rightarrow>
          if f_pos = 0 then
            (case container_of_outputs dev file output of
               Inl flt \<Rightarrow> Inl flt
             | Inr device \<Rightarrow>
                 let address = (word_of_int (0x70 + uint output) :: byte);
                     (_, tr1) = i2c_master_send (client device) [address] tr;
                     ((_, response'), tr2) = i2c_master_recv (client device) (\<lambda>_. response) 1 tr1;
                     data = [0x30 + response' 0, 0x0A, 0x00];
                     count' = length data;
                     (left, buffer') = copy_to_user buffer data
                 in if left \<noteq> 0
                    then Inr \<lparr>retval = - EFAULT, pos = f_pos, user = buffer', trace = tr2\<rparr>
                    else Inr \<lparr>retval = int count', pos = f_pos + int count', user = buffer', trace = tr2\<rparr>)
          else Inr \<lparr>retval = 0, pos = f_pos, user = buffer, trace = tr\<rparr>)"

text \<open>\<open>output_write\<close>.\<close>

definition output_write ::
  "expansion_dev \<Rightarrow> struct_file \<Rightarrow> user_mem \<Rightarrow> nat \<Rightarrow> int \<Rightarrow> i2c_op list \<Rightarrow> fault + fop_result" where
  "output_write dev file buffer len f_pos tr =
     (case name_index file of
        Inl flt \<Rightarrow> Inl flt
      | Inr output \<Rightarrow>
          if len = 0 then Inr \<lparr>retval = 0, pos = f_pos, user = buffer, trace = tr\<rparr>
          else
            (case copy_from_user buffer 1 of
               (left, response) \<Rightarrow>
                 if left \<noteq> 0 then Inr \<lparr>retval = - EFAULT, pos = f_pos, user = buffer, trace = tr\<rparr>
                 else
                   (case container_of_outputs dev file output of
                      Inl flt \<Rightarrow> Inl flt
                    | Inr device \<Rightarrow>
                        let data0 = (if response = [0x31] then 0x71 else 0x70 :: byte);
                            data1 = (ucast output :: byte);
                            (_, tr1) = i2c_master_send (client device) [data0, data1] tr
                        in Inr \<lparr>retval = int len, pos = f_pos, user = buffer, trace = tr1\<rparr>)))"

text \<open>
  \<open>reader_read\<close> decodes the response with
  \<open>((uint)response[2] << 16) + ((uint)response[1] << 8) + response[0]\<close>, where \<open>response\<close>
  is an array of plain \<open>char\<close>. Whether plain \<open>char\<close> is signed is fixed by the target
  the module is built for, not by the source: it is signed in the x86 ABI and unsigned
  in the ARM ABI, and the kernel builds with the choice of the ABI before version 6.2
  (from 6.2 on it builds with \<open>-funsigned-char\<close>). So \<open>char_signed\<close> is a parameter.
  Converting a signed \<open>char\<close> to \<open>unsigned int\<close> extends its sign, converting an unsigned
  one extends it with zeros. The last summand has no cast: it is promoted to \<open>int\<close> and
  converted to \<open>unsigned int\<close> by the addition, with the same result. The arithmetic is
  that of \<open>unsigned int\<close>, 32 bits.
\<close>

definition to_uint :: "bool \<Rightarrow> byte \<Rightarrow> 32 word" where
  "to_uint char_signed c = (if char_signed then scast c else ucast c)"

definition card_number_of :: "bool \<Rightarrow> (nat \<Rightarrow> byte) \<Rightarrow> 32 word" where
  "card_number_of char_signed response =
     push_bit 16 (to_uint char_signed (response 2))
       + push_bit 8 (to_uint char_signed (response 1))
       + to_uint char_signed (response 0)"

text \<open>
  \<open>reader_read\<close>. The arrays \<open>response[8]\<close> and \<open>data[12]\<close> are not initialised: their
  first contents are parameters. \<open>memset(data, 0, sizeof(response))\<close> clears the first 8
  of the 12 bytes of \<open>data\<close>. \<open>%d\<close> prints the \<open>unsigned int\<close> as an \<open>int\<close>. The \<open>count\<close>
  of the caller is overwritten by \<open>sizeof(data) = 12\<close>.
\<close>

definition reader_read ::
  "bool \<Rightarrow> expansion_dev \<Rightarrow> struct_file \<Rightarrow> user_mem \<Rightarrow> nat \<Rightarrow> int \<Rightarrow> (nat \<Rightarrow> byte) \<Rightarrow> (nat \<Rightarrow> byte)
     \<Rightarrow> i2c_op list \<Rightarrow> fault + fop_result" where
  "reader_read char_signed dev file buffer count f_pos response data tr =
     (case name_index file of
        Inl flt \<Rightarrow> Inl flt
      | Inr reader \<Rightarrow>
          if f_pos = 0 then
            (case container_of_readers dev file reader of
               Inl flt \<Rightarrow> Inl flt
             | Inr device \<Rightarrow>
                 let address = (word_of_int (0x10 + 0x08 * uint reader) :: byte);
                     (_, tr1) = i2c_master_send (client device) [address] tr;
                     data1 = poke data (replicate 8 0);
                     ((_, response'), tr2) = i2c_master_recv (client device) response 8 tr1;
                     card_number = card_number_of char_signed response';
                     text = snprintf 12 (decimal (sint card_number) @ [CHR 0x0A]);
                     data2 = poke data1 (map of_char text @ [0]);
                     count' = 12;
                     (left, buffer') = copy_to_user buffer (map data2 [0..<count'])
                 in if left \<noteq> 0
                    then Inr \<lparr>retval = - EFAULT, pos = f_pos, user = buffer', trace = tr2\<rparr>
                    else Inr \<lparr>retval = int count', pos = f_pos + int count', user = buffer', trace = tr2\<rparr>)
          else Inr \<lparr>retval = 0, pos = f_pos, user = buffer, trace = tr\<rparr>)"

subsection \<open>The misc core and the allocator\<close>

text \<open>
  \<open>devm_kzalloc\<close> is called once for the device structure and once for the name of each
  channel; \<open>kzalloc_ok\<close> says which of these calls succeed. \<open>misc_register_ret\<close> is the
  value \<open>misc_register\<close> returns for each slot (0 on success, a negative errno
  otherwise). \<open>probe\<close> registers a slot at most once, so an answer per slot describes
  every misc core it can meet.
\<close>

datatype alloc_site = Dev_struct | Name_buffer slot

record kernel =
  kzalloc_ok :: "alloc_site \<Rightarrow> bool"
  misc_register_ret :: "slot \<Rightarrow> int"

text \<open>The misc core: the set of slots on its list, and the log of the calls made to it
  (oldest first).\<close>

datatype misc_call = Misc_register slot miscdevice | Misc_deregister slot

record misc_core =
  registered :: "slot set"
  calls :: "misc_call list"

definition misc_register :: "kernel \<Rightarrow> slot \<Rightarrow> miscdevice \<Rightarrow> misc_core \<Rightarrow> int \<times> misc_core" where
  "misc_register K s md m =
     (let error = misc_register_ret K s
      in (error,
          m\<lparr>registered := (if error = 0 then insert s (registered m) else registered m),
            calls := calls m @ [Misc_register s md]\<rparr>))"

text \<open>\<open>misc_deregister\<close> returns nothing; on a slot that is not on the list it only
  takes note of the call.\<close>

definition misc_deregister :: "slot \<Rightarrow> misc_core \<Rightarrow> misc_core" where
  "misc_deregister s m =
     m\<lparr>registered := registered m - {s}, calls := calls m @ [Misc_deregister s]\<rparr>"

subsection \<open>Registration of one channel\<close>

definition output_name :: "string \<Rightarrow> nat \<Rightarrow> string" where
  "output_name dev_name output_number =
     snprintf I2C_NAME_SIZE (dev_name @ ''/s'' @ decimal (int output_number))"

definition reader_name :: "string \<Rightarrow> nat \<Rightarrow> string" where
  "reader_name dev_name reader_number =
     snprintf I2C_NAME_SIZE (dev_name @ ''/w'' @ decimal (int reader_number))"

text \<open>What \<open>add_output\<close> and \<open>add_reader\<close> leave in the \<open>miscdevice\<close> they register.\<close>

definition output_misc :: "string \<Rightarrow> nat \<Rightarrow> miscdevice" where
  "output_misc dev_name k =
     \<lparr>minor = MISC_DYNAMIC_MINOR, name = output_name dev_name k, fops = Some outputs_fops\<rparr>"

definition reader_misc :: "string \<Rightarrow> nat \<Rightarrow> miscdevice" where
  "reader_misc dev_name k =
     \<lparr>minor = MISC_DYNAMIC_MINOR, name = reader_name dev_name k, fops = Some readers_fops\<rparr>"

definition add_output ::
  "kernel \<Rightarrow> nat \<Rightarrow> expansion_dev \<times> misc_core \<Rightarrow> fault + (int \<times> expansion_dev \<times> misc_core)" where
  "add_output K output_number s =
     (case s of (device, m) \<Rightarrow>
        if \<not> output_number < OUTPUTS_COUNT then Inl Out_of_bounds
        else if \<not> kzalloc_ok K (Name_buffer (Outputs output_number)) then Inl Null_pointer
        else
          let output = (outputs device output_number)
                \<lparr>minor := MISC_DYNAMIC_MINOR,
                 name := output_name (ename device) output_number,
                 fops := Some outputs_fops\<rparr>;
              device' = device\<lparr>outputs := (outputs device)(output_number := output)\<rparr>;
              (error, m') = misc_register K (Outputs output_number) output m
          in Inr (error, device', m'))"

definition add_reader ::
  "kernel \<Rightarrow> nat \<Rightarrow> expansion_dev \<times> misc_core \<Rightarrow> fault + (int \<times> expansion_dev \<times> misc_core)" where
  "add_reader K reader_number s =
     (case s of (device, m) \<Rightarrow>
        if \<not> reader_number < READERS_COUNT then Inl Out_of_bounds
        else if \<not> kzalloc_ok K (Name_buffer (Readers reader_number)) then Inl Null_pointer
        else
          let reader = (readers device reader_number)
                \<lparr>minor := MISC_DYNAMIC_MINOR,
                 name := reader_name (ename device) reader_number,
                 fops := Some readers_fops\<rparr>;
              device' = device\<lparr>readers := (readers device)(reader_number := reader)\<rparr>;
              (error, m') = misc_register K (Readers reader_number) reader m
          in Inr (error, device', m'))"

subsection \<open>Attach and detach\<close>

text \<open>
  The loop \<open>for (index = 0; index < bound; index++) misc_deregister(&device->outputs[index])\<close>
  and the same loop over the readers, from the value \<open>index\<close> has reached. The bound is
  the index of the channel that failed in the rollbacks of \<open>probe\<close>, and the count of
  channels elsewhere.
\<close>

function deregister_outputs :: "nat \<Rightarrow> nat \<Rightarrow> misc_core \<Rightarrow> misc_core" where
  "deregister_outputs index bound m =
     (if index < bound
      then deregister_outputs (index + 1) bound (misc_deregister (Outputs index) m)
      else m)"
  by pat_completeness auto
termination
  by (relation "measure (\<lambda>(index, bound, m). bound - index)") auto

function deregister_readers :: "nat \<Rightarrow> nat \<Rightarrow> misc_core \<Rightarrow> misc_core" where
  "deregister_readers index bound m =
     (if index < bound
      then deregister_readers (index + 1) bound (misc_deregister (Readers index) m)
      else m)"
  by pat_completeness auto
termination
  by (relation "measure (\<lambda>(index, bound, m). bound - index)") auto

declare deregister_outputs.simps [simp del]
declare deregister_readers.simps [simp del]

text \<open>
  The two loops of \<open>probe\<close>, from the value the loop variable has reached. A loop
  answers \<open>Some error\<close> when its body returned from \<open>probe\<close> with \<open>error\<close>, and \<open>None\<close>
  when it ran to its end. The calls of \<open>pr_err\<close> only write to the kernel log and are
  left out.
\<close>

function probe_outputs ::
  "kernel \<Rightarrow> nat \<Rightarrow> expansion_dev \<times> misc_core \<Rightarrow> fault + (int option \<times> expansion_dev \<times> misc_core)" where
  "probe_outputs K output s =
     (if output < OUTPUTS_COUNT then
        (case add_output K output s of
           Inl flt \<Rightarrow> Inl flt
         | Inr (error, device, m) \<Rightarrow>
             if error \<noteq> 0
             then Inr (Some error, device, deregister_outputs 0 output m)
             else probe_outputs K (output + 1) (device, m))
      else Inr (None, s))"
  by pat_completeness auto
termination
  by (relation "measure (\<lambda>(K, output, s). OUTPUTS_COUNT - output)") auto

function probe_readers ::
  "kernel \<Rightarrow> nat \<Rightarrow> expansion_dev \<times> misc_core \<Rightarrow> fault + (int option \<times> expansion_dev \<times> misc_core)" where
  "probe_readers K reader s =
     (if reader < READERS_COUNT then
        (case add_reader K reader s of
           Inl flt \<Rightarrow> Inl flt
         | Inr (error, device, m) \<Rightarrow>
             if error \<noteq> 0
             then Inr (Some error, device,
                       deregister_outputs 0 OUTPUTS_COUNT (deregister_readers 0 reader m))
             else probe_readers K (reader + 1) (device, m))
      else Inr (None, s))"
  by pat_completeness auto
termination
  by (relation "measure (\<lambda>(K, reader, s). READERS_COUNT - reader)") auto

declare probe_outputs.simps [simp del]
declare probe_readers.simps [simp del]

definition zeroed_miscdevice :: miscdevice where
  "zeroed_miscdevice = \<lparr>minor = 0, name = [], fops = None\<rparr>"

text \<open>
  \<open>probe\<close>. The local \<open>error\<close> is not initialised: its first value is a parameter. The
  result is the value returned, the device structure if one was allocated, and the misc
  core.
\<close>

definition probe ::
  "kernel \<Rightarrow> i2c_client \<Rightarrow> int \<Rightarrow> misc_core \<Rightarrow> fault + (int \<times> expansion_dev option \<times> misc_core)" where
  "probe K client' error m =
     (if addr client' = 0x50 then
        if \<not> kzalloc_ok K Dev_struct then Inl Null_pointer
        else
          let device = \<lparr>client = client',
                        outputs = (\<lambda>_. zeroed_miscdevice),
                        readers = (\<lambda>_. zeroed_miscdevice),
                        ename = snprintf I2C_NAME_SIZE ''/exp0''\<rparr>
          in (case probe_outputs K 0 (device, m) of
                Inl flt \<Rightarrow> Inl flt
              | Inr (Some error', device', m') \<Rightarrow> Inr (error', Some device', m')
              | Inr (None, s') \<Rightarrow>
                  (case probe_readers K 0 s' of
                     Inl flt \<Rightarrow> Inl flt
                   | Inr (Some error', device', m') \<Rightarrow> Inr (error', Some device', m')
                   | Inr (None, device', m') \<Rightarrow> Inr (0, Some device', m')))
      else Inr (error, None, m))"

text \<open>\<open>remove\<close> (named \<open>remove_client\<close>: \<open>remove\<close> is a constant of HOL).\<close>

definition remove_client :: "expansion_dev \<Rightarrow> misc_core \<Rightarrow> int \<times> misc_core" where
  "remove_client device m =
     (0, deregister_readers 0 READERS_COUNT (deregister_outputs 0 OUTPUTS_COUNT m))"

subsection \<open>The files of the channels\<close>

text \<open>
  The misc core creates the node of a registered \<open>miscdevice\<close> under its \<open>name\<close>; the
  directory entry of the node is named by the last component of that path, and opening
  it sets \<open>private_data\<close> to the \<open>miscdevice\<close>.
\<close>

definition dentry_name :: "string \<Rightarrow> string" where
  "dentry_name path = rev (takeWhile (\<lambda>c. c \<noteq> CHR ''/'') (rev path))"

definition misc_open :: "string \<Rightarrow> slot \<Rightarrow> struct_file" where
  "misc_open path s = \<lparr>d_name = dentry_name path, private_data = s\<rparr>"

text \<open>The files of output \<open>i\<close> and of reader \<open>j\<close> of the board, which \<open>probe\<close> names
  \<open>/exp0\<close>.\<close>

definition output_file :: "nat \<Rightarrow> struct_file" where
  "output_file i = misc_open (output_name ''/exp0'' i) (Outputs i)"

definition reader_file :: "nat \<Rightarrow> struct_file" where
  "reader_file j = misc_open (reader_name ''/exp0'' j) (Readers j)"

subsection \<open>Concrete environments\<close>

text \<open>A peer that acknowledges every transfer and answers every receive with \<open>bs\<close>, and
  a bus on which every transfer fails with \<open>-EIO\<close>.\<close>

definition answering :: "byte list \<Rightarrow> i2c_op list \<Rightarrow> int + byte list" where
  "answering bs tr = Inr bs"

definition dead_bus :: "i2c_op list \<Rightarrow> int + byte list" where
  "dead_bus tr = Inl (- EIO)"

text \<open>A kernel in which every allocation succeeds and every registration but that of
  slot \<open>s\<close> succeeds; registering \<open>s\<close> returns \<open>e\<close>.\<close>

definition failing_at :: "slot \<Rightarrow> int \<Rightarrow> kernel" where
  "failing_at s e =
     \<lparr>kzalloc_ok = (\<lambda>_. True), misc_register_ret = (\<lambda>s'. if s' = s then e else 0)\<rparr>"

text \<open>The device structure as a successful \<open>probe\<close> of the client \<open>c\<close> leaves it
  (lemma \<open>probe_success\<close> below).\<close>

definition attached_dev :: "i2c_client \<Rightarrow> expansion_dev" where
  "attached_dev c =
     \<lparr>client = c,
      outputs = (\<lambda>k. if k < OUTPUTS_COUNT then output_misc ''/exp0'' k else zeroed_miscdevice),
      readers = (\<lambda>k. if k < READERS_COUNT then reader_misc ''/exp0'' k else zeroed_miscdevice),
      ename = ''/exp0''\<rparr>"

subsection \<open>The wire format of a card identifier\<close>

text \<open>
  The board's side of the reader protocol is not code of the driver. The specification
  words it as: the identifier \<open>v\<close> is sent as 3 bytes, least significant first. As the
  content of the 8-byte response buffer (the 5 bytes that follow are not read by the
  decoder; they are 0 here):
\<close>

definition spec_le24 :: "nat \<Rightarrow> nat \<Rightarrow> byte" where
  "spec_le24 v k = (if k < 3 then word_of_nat (v div 256 ^ k) else 0)"

section \<open>Properties\<close>

subsection \<open>Names and indices of the channel files\<close>

lemma digits_small: "n < 10 \<Longrightarrow> digits n = [char_of (48 + n)]"
  by (subst digits.simps) simp

lemma output_name_exp0:
  "i < OUTPUTS_COUNT \<Longrightarrow> output_name ''/exp0'' i = ''/exp0/s'' @ [char_of (48 + i)]"
  by (simp add: output_name_def snprintf_def decimal_def digits_small I2C_NAME_SIZE_def
      OUTPUTS_COUNT_def)

lemma reader_name_exp0:
  "j < READERS_COUNT \<Longrightarrow> reader_name ''/exp0'' j = ''/exp0/w'' @ [char_of (48 + j)]"
  by (simp add: reader_name_def snprintf_def decimal_def digits_small I2C_NAME_SIZE_def
      READERS_COUNT_def)

lemma of_char_digit: "n < 10 \<Longrightarrow> (of_char (char_of (48 + n :: nat)) :: int) = 48 + int n"
proof -
  assume n: "n < 10"
  have "(of_char (char_of (48 + n)) :: int) = int (of_char (char_of (48 + n)))"
    by (simp only: of_nat_of_char)
  also have "\<dots> = int ((48 + n) mod 256)"
    by (simp only: of_char_of)
  finally show ?thesis using n by simp
qed

lemma char_of_digit_neq_slash: "n < 10 \<Longrightarrow> char_of (48 + n :: nat) \<noteq> CHR ''/''"
proof
  assume n: "n < 10" and "char_of (48 + n) = CHR ''/''"
  then have "(of_char (char_of (48 + n)) :: int) = of_char CHR ''/''" by simp
  with n show False by (simp add: of_char_digit)
qed

lemma d_name_output_file:
  "i < OUTPUTS_COUNT \<Longrightarrow> d_name (output_file i) = [CHR ''s'', char_of (48 + i)]"
  by (simp add: output_file_def misc_open_def output_name_exp0 dentry_name_def
      char_of_digit_neq_slash OUTPUTS_COUNT_def)

lemma d_name_reader_file:
  "j < READERS_COUNT \<Longrightarrow> d_name (reader_file j) = [CHR ''w'', char_of (48 + j)]"
  by (simp add: reader_file_def misc_open_def reader_name_exp0 dentry_name_def
      char_of_digit_neq_slash READERS_COUNT_def)

text \<open>The index the file operations read off the name is the index of the channel.\<close>

lemma name_index_output_file:
  "i < OUTPUTS_COUNT \<Longrightarrow> name_index (output_file i) = Inr (word_of_nat i)"
  by (simp add: name_index_def d_name_output_file of_char_digit OUTPUTS_COUNT_def)

lemma name_index_reader_file:
  "j < READERS_COUNT \<Longrightarrow> name_index (reader_file j) = Inr (word_of_nat j)"
  by (simp add: name_index_def d_name_reader_file of_char_digit READERS_COUNT_def)

lemma container_of_output_file:
  "i < OUTPUTS_COUNT \<Longrightarrow> container_of_outputs dev (output_file i) (word_of_nat i) = Inr dev"
  by (simp add: container_of_outputs_def output_file_def misc_open_def unat_of_nat OUTPUTS_COUNT_def)

lemma container_of_reader_file:
  "j < READERS_COUNT \<Longrightarrow> container_of_readers dev (reader_file j) (word_of_nat j) = Inr dev"
  by (simp add: container_of_readers_def reader_file_def misc_open_def unat_of_nat READERS_COUNT_def)

lemma name_index_nonempty: "d_name f \<noteq> [] \<Longrightarrow> \<exists>n. name_index f = Inr n"
  by (simp add: name_index_def split: list.split)

subsection \<open>The bus transfers of one file operation\<close>

lemma snd_i2c_master_send: "snd (i2c_master_send c buf tr) = tr @ [Master_send buf]"
  by (simp add: i2c_master_send_def Let_def split: sum.split)

lemma snd_i2c_master_recv: "snd (i2c_master_recv c buf n tr) = tr @ [Master_recv n]"
  by (simp add: i2c_master_recv_def Let_def split: sum.split)

lemma buf_i2c_master_recv:
  "snd (fst (i2c_master_recv c buf n tr)) =
     (case adapter c (tr @ [Master_recv n]) of Inl e \<Rightarrow> buf | Inr bs \<Rightarrow> poke buf (take n bs))"
  by (simp add: i2c_master_recv_def Let_def split: sum.split)

lemma output_address:
  "i < OUTPUTS_COUNT \<Longrightarrow>
     (word_of_int (0x70 + uint (word_of_nat i :: 16 word)) :: byte) = word_of_nat (0x70 + i)"
  by (simp add: OUTPUTS_COUNT_def uint_nat unat_of_nat)

lemma reader_address:
  "j < READERS_COUNT \<Longrightarrow>
     (word_of_int (0x10 + 0x08 * uint (word_of_nat j :: 16 word)) :: byte) = word_of_nat (0x10 + 8 * j)"
  by (simp add: READERS_COUNT_def uint_nat unat_of_nat)

lemma ucast_index:
  "i < OUTPUTS_COUNT \<Longrightarrow> (ucast (word_of_nat i :: 16 word) :: byte) = word_of_nat i"
  by (simp add: OUTPUTS_COUNT_def unsigned_of_nat take_bit_nat_eq_self)

text \<open>What each file operation does at offset 0 on the file of a channel of the board,
  whatever the bus answers and whatever the uninitialised locals hold.\<close>

lemma output_read_at_0:
  assumes "i < OUTPUTS_COUNT"
  shows "output_read dev (output_file i) buffer count 0 response tr =
     (let tr2 = tr @ [Master_send [word_of_nat (0x70 + i)], Master_recv 1];
          response' = (case adapter (client dev) tr2 of
                         Inl e \<Rightarrow> response
                       | Inr bs \<Rightarrow> poke (\<lambda>_. response) (take 1 bs) 0);
          data = [0x30 + response', 0x0A, 0x00]
      in case buffer of
           None \<Rightarrow> Inr \<lparr>retval = - EFAULT, pos = 0, user = None, trace = tr2\<rparr>
         | Some old \<Rightarrow> Inr \<lparr>retval = 3, pos = 3, user = Some (data @ drop 3 old), trace = tr2\<rparr>)"
proof -
  have "output_read dev (output_file i) buffer count 0 response tr =
     (let tr1 = tr @ [Master_send [word_of_nat (0x70 + i)]];
          tr2 = tr1 @ [Master_recv 1];
          response' = snd (fst (i2c_master_recv (client dev) (\<lambda>_. response) 1 tr1));
          data = [0x30 + response' 0, 0x0A, 0x00]
      in case buffer of
           None \<Rightarrow> Inr \<lparr>retval = - EFAULT, pos = 0, user = None, trace = tr2\<rparr>
         | Some old \<Rightarrow> Inr \<lparr>retval = 3, pos = 3, user = Some (data @ drop 3 old), trace = tr2\<rparr>)"
    using assms
    by (simp only: output_read_def name_index_output_file container_of_output_file output_address
        sum.case Let_def split_beta snd_i2c_master_send snd_i2c_master_recv copy_to_user_def)
       (simp add: numeral_3_eq_3 split: option.split)
  then show ?thesis
    by (simp add: buf_i2c_master_recv Let_def split: sum.split option.split)
qed

lemma output_write_nonempty:
  assumes "i < OUTPUTS_COUNT" and "0 < len"
  shows "output_write dev (output_file i) (Some (c # rest)) len f_pos tr =
     Inr \<lparr>retval = int len, pos = f_pos, user = Some (c # rest),
          trace = tr @ [Master_send [if c = 0x31 then 0x71 else 0x70, word_of_nat i]]\<rparr>"
  using assms
  by (simp add: output_write_def name_index_output_file container_of_output_file
      copy_from_user_def split_beta snd_i2c_master_send Let_def ucast_index)

lemma reader_read_at_0:
  assumes "j < READERS_COUNT"
  shows "reader_read char_signed dev (reader_file j) buffer count 0 response data tr =
     (let tr2 = tr @ [Master_send [word_of_nat (0x10 + 8 * j)], Master_recv 8];
          response' = (case adapter (client dev) tr2 of
                         Inl e \<Rightarrow> response
                       | Inr bs \<Rightarrow> poke response (take 8 bs));
          text = snprintf 12 (decimal (sint (card_number_of char_signed response')) @ [CHR 0x0A]);
          data2 = poke (poke data (replicate 8 0)) (map of_char text @ [0])
      in case buffer of
           None \<Rightarrow> Inr \<lparr>retval = - EFAULT, pos = 0, user = None, trace = tr2\<rparr>
         | Some old \<Rightarrow> Inr \<lparr>retval = 12, pos = 12,
                             user = Some (map data2 [0..<12] @ drop 12 old), trace = tr2\<rparr>)"
  using assms
  by (simp only: reader_read_def name_index_reader_file container_of_reader_file reader_address
        sum.case Let_def split_beta snd_i2c_master_send snd_i2c_master_recv copy_to_user_def
        buf_i2c_master_recv)
     (simp split: option.split)

subsection \<open>Query addresses\<close>

text \<open>
  Claim C4. For every output index \<open>i < OUTPUTS_COUNT\<close>, a state query (a read at offset
  0 of the file of output \<open>i\<close>) sends exactly one byte, \<open>0x70 + i\<close>, and then receives one
  byte; for every reader index \<open>j < READERS_COUNT\<close>, a last-card query sends exactly one
  byte, \<open>0x10 + 8 * j\<close>, and then receives eight bytes. This holds whatever the bus
  answers, whatever the user buffer is and whatever the uninitialised locals hold.
\<close>

theorem query_addresses:
  assumes "i < OUTPUTS_COUNT" and "j < READERS_COUNT"
  shows "(\<exists>r a. output_read dev (output_file i) buffer count 0 response tr = Inr r
              \<and> trace r = tr @ [Master_send [a], Master_recv 1] \<and> unat a = 0x70 + i)
       \<and> (\<exists>r a. reader_read char_signed dev (reader_file j) buffer count 0 response_r data tr = Inr r
              \<and> trace r = tr @ [Master_send [a], Master_recv 8] \<and> unat a = 0x10 + 8 * j)"
proof (intro conjI)
  have "unat (word_of_nat (0x70 + i) :: byte) = 0x70 + i"
    using assms(1) by (subst unat_of_nat) (simp add: OUTPUTS_COUNT_def)
  then show "\<exists>r a. output_read dev (output_file i) buffer count 0 response tr = Inr r
              \<and> trace r = tr @ [Master_send [a], Master_recv 1] \<and> unat a = 0x70 + i"
    by (cases buffer) (simp_all add: output_read_at_0 [OF assms(1)] Let_def)
next
  have "unat (word_of_nat (0x10 + 8 * j) :: byte) = 0x10 + 8 * j"
    using assms(2) by (subst unat_of_nat) (simp add: READERS_COUNT_def)
  then show "\<exists>r a. reader_read char_signed dev (reader_file j) buffer count 0 response_r data tr = Inr r
              \<and> trace r = tr @ [Master_send [a], Master_recv 8] \<and> unat a = 0x10 + 8 * j"
    by (cases buffer) (simp_all add: reader_read_at_0 [OF assms(2)] Let_def)
qed

theorem query_addresses_witness:
  "(\<exists>r a. output_read (attached_dev \<lparr>addr = 0x50, adapter = answering [1]\<rparr>) (output_file 2)
              (Some []) 3 0 0 [] = Inr r
          \<and> trace r = [] @ [Master_send [a], Master_recv 1] \<and> unat a = 0x70 + 2)
   \<and> (\<exists>r a. reader_read False (attached_dev \<lparr>addr = 0x50, adapter = answering [1]\<rparr>) (reader_file 1)
              (Some []) 3 0 (\<lambda>_. 0) (\<lambda>_. 0) [] = Inr r
          \<and> trace r = [] @ [Master_send [a], Master_recv 8] \<and> unat a = 0x10 + 8 * 1)"
  using query_addresses [where i = 2 and j = 1 and tr = "[]" and buffer = "Some []" and count = 3
      and dev = "attached_dev \<lparr>addr = 0x50, adapter = answering [1]\<rparr>"
      and response = 0 and char_signed = False and response_r = "\<lambda>_. 0" and data = "\<lambda>_. 0"]
  by (simp add: OUTPUTS_COUNT_def READERS_COUNT_def)

subsection \<open>Reads at a nonzero offset, and empty writes\<close>

text \<open>
  Claim C10. A read of an output file or of a reader file at a nonzero file offset
  returns 0, makes no bus transfer (the bus log is unchanged), copies nothing to the
  user buffer and leaves the offset as it is. This holds for every file (the name of a
  directory entry is never empty).
\<close>

theorem read_at_nonzero_offset:
  assumes "f_pos \<noteq> 0" and "d_name f \<noteq> []" and "d_name g \<noteq> []"
  shows "output_read dev f buffer count f_pos response tr
           = Inr \<lparr>retval = 0, pos = f_pos, user = buffer, trace = tr\<rparr>
       \<and> reader_read char_signed dev g buffer count f_pos response_r data tr
           = Inr \<lparr>retval = 0, pos = f_pos, user = buffer, trace = tr\<rparr>"
proof -
  from assms(2) obtain n where "name_index f = Inr n"
    using name_index_nonempty by blast
  moreover from assms(3) obtain n' where "name_index g = Inr n'"
    using name_index_nonempty by blast
  ultimately show ?thesis
    using assms(1) by (simp add: output_read_def reader_read_def)
qed

theorem read_at_nonzero_offset_witness:
  "output_read (attached_dev \<lparr>addr = 0x50, adapter = answering [1]\<rparr>) (output_file 1)
       (Some [7]) 3 3 0 []
     = Inr \<lparr>retval = 0, pos = 3, user = Some [7], trace = []\<rparr>
   \<and> reader_read False (attached_dev \<lparr>addr = 0x50, adapter = answering [1]\<rparr>) (reader_file 0)
       (Some [7]) 3 3 (\<lambda>_. 0) (\<lambda>_. 0) []
     = Inr \<lparr>retval = 0, pos = 3, user = Some [7], trace = []\<rparr>"
  using read_at_nonzero_offset [where f_pos = 3 and f = "output_file 1" and g = "reader_file 0"
      and tr = "[]" and buffer = "Some [7]" and count = 3
      and dev = "attached_dev \<lparr>addr = 0x50, adapter = answering [1]\<rparr>"
      and response = 0 and char_signed = False and response_r = "\<lambda>_. 0" and data = "\<lambda>_. 0"]
  by (simp add: d_name_output_file d_name_reader_file OUTPUTS_COUNT_def READERS_COUNT_def)

text \<open>
  Claim C9. A write of length 0 to an output file returns 0 (success) and makes no bus
  transfer: the bus log is unchanged, so nothing is sent that could change the state of
  the output, and the user buffer is not read. This holds for every file.
\<close>

theorem empty_write_is_noop:
  assumes "d_name f \<noteq> []"
  shows "output_write dev f buffer 0 f_pos tr
           = Inr \<lparr>retval = 0, pos = f_pos, user = buffer, trace = tr\<rparr>"
proof -
  from assms obtain n where "name_index f = Inr n"
    using name_index_nonempty by blast
  then show ?thesis
    by (simp add: output_write_def)
qed

theorem empty_write_is_noop_witness:
  "output_write (attached_dev \<lparr>addr = 0x50, adapter = answering [1]\<rparr>) (output_file 1) None 0 0 []
     = Inr \<lparr>retval = 0, pos = 0, user = None, trace = []\<rparr>"
  using empty_write_is_noop [where f = "output_file 1" and tr = "[]" and buffer = None
      and f_pos = 0 and dev = "attached_dev \<lparr>addr = 0x50, adapter = answering [1]\<rparr>"]
  by (simp add: d_name_output_file OUTPUTS_COUNT_def)

subsection \<open>Setting an output\<close>

text \<open>
  Claim C6. For every output index \<open>i < OUTPUTS_COUNT\<close>: a write that sets the output on
  (a non-empty request whose first byte is the character \<open>1\<close>, \<open>0x31\<close>) followed by a
  write that sets it off (a non-empty request whose first byte is anything else) adds
  exactly two transfers to the bus log, both sends: first the two bytes \<open>[0x71, i]\<close>,
  then the two bytes \<open>[0x70, i]\<close>. Nothing is received.
\<close>

theorem set_on_then_off:
  assumes "i < OUTPUTS_COUNT" and "0 < len_on" and "0 < len_off" and "c \<noteq> 0x31"
  shows "\<exists>r1 r2.
           output_write dev (output_file i) (Some (0x31 # rest_on)) len_on f_pos tr = Inr r1
         \<and> output_write dev (output_file i) (Some (c # rest_off)) len_off (pos r1) (trace r1) = Inr r2
         \<and> trace r2 = tr @ [Master_send [0x71, word_of_nat i], Master_send [0x70, word_of_nat i]]
         \<and> unat (word_of_nat i :: byte) = i"
  using assms
  by (simp add: output_write_nonempty unat_of_nat OUTPUTS_COUNT_def)

theorem set_on_then_off_witness:
  "\<exists>r1 r2.
     output_write (attached_dev \<lparr>addr = 0x50, adapter = answering []\<rparr>) (output_file 2)
         (Some (0x31 # [0x0A])) 2 0 [] = Inr r1
   \<and> output_write (attached_dev \<lparr>addr = 0x50, adapter = answering []\<rparr>) (output_file 2)
         (Some (0x30 # [0x0A])) 2 (pos r1) (trace r1) = Inr r2
   \<and> trace r2 = [] @ [Master_send [0x71, word_of_nat 2], Master_send [0x70, word_of_nat 2]]
   \<and> unat (word_of_nat 2 :: byte) = 2"
  using set_on_then_off [where i = 2 and len_on = 2 and len_off = 2 and c = "0x30" and tr = "[]"
      and rest_on = "[0x0A]" and rest_off = "[0x0A]" and f_pos = 0
      and dev = "attached_dev \<lparr>addr = 0x50, adapter = answering []\<rparr>"]
  by (simp add: OUTPUTS_COUNT_def)

subsection \<open>Rendering the state of an output\<close>

text \<open>The character \<open>0x30 + b\<close> is \<open>0\<close> only for \<open>b = 0\<close>, and \<open>1\<close> only for \<open>b = 1\<close>.\<close>

lemma rendered_digit:
  "(0x30 + b = (0x30 :: byte)) = (b = 0)" "(0x30 + b = (0x31 :: byte)) = (b = 1)"
proof -
  show "(0x30 + b = (0x30 :: byte)) = (b = 0)"
    by simp
  have "(0x30 + b = 0x30 + (1 :: byte)) = (b = 1)"
    by (simp only: add_left_cancel)
  then show "(0x30 + b = (0x31 :: byte)) = (b = 1)"
    by simp
qed

text \<open>
  Claim C5, as the code has it. \<open>output_read\<close> does not look at the least significant
  bit of the response: it adds the whole response byte to the character \<open>0\<close>
  (\<open>data[0] += response\<close>) and copies \<open>sizeof(data) = 3\<close> bytes. For every output index
  \<open>i < OUTPUTS_COUNT\<close> and every response byte \<open>b\<close> received, the bytes delivered to the
  user are the character with code \<open>0x30 + b\<close> (modulo 256), a newline and a NUL byte. So
  the text is \<open>0\<close> for \<open>b = 0\<close> and \<open>1\<close> for \<open>b = 1\<close>, and for no other byte is it one of
  the two.
\<close>

theorem output_state_rendering:
  assumes "i < OUTPUTS_COUNT"
    and "adapter (client dev) (tr @ [Master_send [word_of_nat (0x70 + i)], Master_recv 1]) = Inr (b # bs)"
  shows "output_read dev (output_file i) (Some old) count 0 response tr
           = Inr \<lparr>retval = 3, pos = 3, user = Some ([0x30 + b, 0x0A, 0x00] @ drop 3 old),
                  trace = tr @ [Master_send [word_of_nat (0x70 + i)], Master_recv 1]\<rparr>"
  using assms by (simp add: output_read_at_0 poke_def)

theorem output_state_rendering_witness:
  "output_read (attached_dev \<lparr>addr = 0x50, adapter = answering [1]\<rparr>) (output_file 1)
       (Some [9, 9, 9, 9]) 4 0 0 []
     = Inr \<lparr>retval = 3, pos = 3, user = Some [0x31, 0x0A, 0x00, 9],
            trace = [Master_send [0x71], Master_recv 1]\<rparr>"
  using output_state_rendering [where i = 1 and b = 1 and bs = "[]" and tr = "[]" and count = 4
      and old = "[9, 9, 9, 9]" and response = 0
      and dev = "attached_dev \<lparr>addr = 0x50, adapter = answering [1]\<rparr>"]
  by (simp add: OUTPUTS_COUNT_def attached_dev_def answering_def)

text \<open>
  The claim as stated fails: the response byte 2 has its least significant bit clear, and
  the text rendered for it is the character \<open>2\<close> (\<open>0x32\<close>), a newline and a NUL byte:
  neither \<open>0\<close> nor \<open>1\<close> followed by a newline.
\<close>

theorem output_state_not_lsb_counterexample:
  "output_read (attached_dev \<lparr>addr = 0x50, adapter = answering [2]\<rparr>) (output_file 0)
       (Some []) 3 0 0 []
     = Inr \<lparr>retval = 3, pos = 3, user = Some [0x32, 0x0A, 0x00],
            trace = [Master_send [0x70], Master_recv 1]\<rparr>"
  by (simp add: output_read_at_0 OUTPUTS_COUNT_def attached_dev_def answering_def poke_def)

subsection \<open>Failures of the bus\<close>

text \<open>
  Claim C3, as the code has it. No file operation looks at what \<open>i2c_master_send\<close> or
  \<open>i2c_master_recv\<close> returns. So, for every channel of the board and whatever the bus
  answers (in particular when the send or the receive fails), with a readable and
  writable user buffer: an output query returns 3, an output set returns the length
  of the request, and a reader query returns 12, as they do when the bus works. A
  failure of the bus is not reported. It is not retried either: each operation logs one
  send, and each read one receive after it, and nothing else.
\<close>

theorem bus_failure_not_reported:
  assumes "i < OUTPUTS_COUNT" and "j < READERS_COUNT" and "0 < len"
  shows "(\<exists>r. output_read dev (output_file i) (Some old) count 0 response tr = Inr r
            \<and> retval r = 3
            \<and> trace r = tr @ [Master_send [word_of_nat (0x70 + i)], Master_recv 1])
       \<and> (\<exists>r. output_write dev (output_file i) (Some (c # rest)) len f_pos tr = Inr r
            \<and> retval r = int len
            \<and> trace r = tr @ [Master_send [if c = 0x31 then 0x71 else 0x70, word_of_nat i]])
       \<and> (\<exists>r. reader_read char_signed dev (reader_file j) (Some old) count 0 response_r data tr = Inr r
            \<and> retval r = 12
            \<and> trace r = tr @ [Master_send [word_of_nat (0x10 + 8 * j)], Master_recv 8])"
  using assms
  by (simp add: output_read_at_0 output_write_nonempty reader_read_at_0 Let_def)

theorem bus_failure_not_reported_witness:
  "(\<exists>r. output_read (attached_dev \<lparr>addr = 0x50, adapter = dead_bus\<rparr>) (output_file 1)
            (Some []) 3 0 0 [] = Inr r
        \<and> retval r = 3
        \<and> trace r = [] @ [Master_send [word_of_nat (0x70 + 1)], Master_recv 1])
   \<and> (\<exists>r. output_write (attached_dev \<lparr>addr = 0x50, adapter = dead_bus\<rparr>) (output_file 1)
            (Some (0x31 # [])) 1 0 [] = Inr r
        \<and> retval r = int 1
        \<and> trace r = [] @ [Master_send [if (0x31 :: byte) = 0x31 then 0x71 else 0x70, word_of_nat 1]])
   \<and> (\<exists>r. reader_read False (attached_dev \<lparr>addr = 0x50, adapter = dead_bus\<rparr>) (reader_file 1)
            (Some []) 3 0 (\<lambda>_. 0) (\<lambda>_. 0) [] = Inr r
        \<and> retval r = 12
        \<and> trace r = [] @ [Master_send [word_of_nat (0x10 + 8 * 1)], Master_recv 8])"
  using bus_failure_not_reported [where i = 1 and j = 1 and len = 1 and c = "0x31" and tr = "[]"
      and rest = "[]" and f_pos = 0 and old = "[]" and count = 3 and response = 0
      and char_signed = False and response_r = "\<lambda>_. 0" and data = "\<lambda>_. 0"
      and dev = "attached_dev \<lparr>addr = 0x50, adapter = dead_bus\<rparr>"]
  by (simp add: OUTPUTS_COUNT_def READERS_COUNT_def)

text \<open>
  The claim as stated fails: on a bus where every transfer fails with \<open>-EIO\<close>, a query of
  output 0 returns 3, not an error, and hands the user a text made from the
  uninitialised \<open>response\<close> (here 0).
\<close>

theorem bus_failure_suppressed_counterexample:
  "output_read (attached_dev \<lparr>addr = 0x50, adapter = dead_bus\<rparr>) (output_file 0) (Some []) 3 0 0 []
     = Inr \<lparr>retval = 3, pos = 3, user = Some [0x30, 0x0A, 0x00],
            trace = [Master_send [0x70], Master_recv 1]\<rparr>"
  by (simp add: output_read_at_0 OUTPUTS_COUNT_def attached_dev_def dead_bus_def)

subsection \<open>Decoding a card identifier\<close>

lemma le24_digits:
  assumes "v < 2 ^ 24"
  shows "(v div 65536) mod 256 * 65536 + (v div 256) mod 256 * 256 + v mod 256 = (v :: nat)"
proof -
  have hi: "v div 65536 mod 256 = v div 65536"
    using assms by (simp add: less_mult_imp_div_less)
  have lo: "v mod 65536 = 256 * (v div 256 mod 256) + v mod 256"
    using mod_mult2_eq [of v 256 256] by simp
  have "v = 65536 * (v div 65536) + v mod 65536"
    by (simp only: mult_div_mod_eq)
  then have "v = v div 65536 * 65536 + (v div 256 mod 256 * 256 + v mod 256)"
    by (simp only: lo mult.commute)
  then show ?thesis
    by (simp only: hi add.assoc)
qed

lemma card_number_of_unsigned:
  "card_number_of False response =
     word_of_nat (unat (response 2) * 65536 + unat (response 1) * 256 + unat (response 0))"
  by (simp add: card_number_of_def to_uint_def push_bit_eq_mult)

text \<open>Where plain \<open>char\<close> is unsigned, decoding inverts the 3-byte little-endian
  encoding on all of \<open>[0, 2^24)\<close>.\<close>

lemma le24_roundtrip_unsigned_char:
  assumes "v < 2 ^ 24"
  shows "unat (card_number_of False (spec_le24 v)) = v"
proof -
  have "card_number_of False (spec_le24 v) =
      word_of_nat ((v div 65536) mod 256 * 65536 + (v div 256) mod 256 * 256 + v mod 256)"
    by (simp add: card_number_of_unsigned spec_le24_def unat_of_nat)
  also have "\<dots> = word_of_nat v"
    using assms by (simp only: le24_digits)
  finally show ?thesis
    using assms by (simp add: unat_of_nat)
qed

text \<open>The response bytes \<open>01 02 03\<close> decode to 197121 on every target.\<close>

lemma decode_010203: "card_number_of cs (\<lambda>k. [0x01, 0x02, 0x03, 0, 0, 0, 0, 0] ! k) = 197121"
  by (cases cs) (simp_all add: card_number_of_def to_uint_def)

text \<open>
  Claim C2. The round trip holds where plain \<open>char\<close> is unsigned (lemma
  \<open>le24_roundtrip_unsigned_char\<close>), and the code fails it where plain \<open>char\<close> is signed.
  The buffer is declared \<open>char response[8]\<close>, and the decoder converts its elements
  with \<open>(uint)response[k]\<close>: a signed \<open>char\<close> holding a byte of \<open>0x80\<close> or more is
  negative, and the conversion extends its sign. For the identifier 128, sent as
  \<open>80 00 00\<close>, the decoder then computes \<open>0xFFFFFF80\<close> (4294967168), which is neither
  128 nor a 24-bit value.
\<close>

theorem reader_decode_signed_char:
  "card_number_of True (spec_le24 128) = 0xFFFFFF80"
  by (simp add: card_number_of_def to_uint_def spec_le24_def)

text \<open>What the caller of \<open>reader_read\<close> sees for that card: the text \<open>-128\<close>.\<close>

lemma reader_read_signed_char:
  "reader_read True (attached_dev \<lparr>addr = 0x50, adapter = answering [0x80, 0, 0, 0, 0, 0, 0, 0]\<rparr>)
       (reader_file 0) (Some []) 12 0 (\<lambda>_. 0) (\<lambda>_. 0) []
     = Inr \<lparr>retval = 12, pos = 12, user = Some (map of_char ''-128'' @ [0x0A, 0, 0, 0, 0, 0, 0, 0]),
            trace = [Master_send [0x10], Master_recv 8]\<rparr>"
  by code_simp

subsection \<open>Detach\<close>

lemma deregister_outputs_eq:
  "deregister_outputs i n m =
     m\<lparr>registered := registered m - Outputs ` {i..<n},
       calls := calls m @ map (\<lambda>k. Misc_deregister (Outputs k)) [i..<n]\<rparr>"
proof (induction i n m rule: deregister_outputs.induct)
  case (1 index bound m)
  show ?case
  proof (cases "index < bound")
    case True
    then have sets: "registered m - {Outputs index} - Outputs ` {Suc index..<bound}
        = registered m - Outputs ` {index..<bound}"
      by auto
    from True have lists: "[index..<bound] = index # [Suc index..<bound]"
      by (rule upt_conv_Cons)
    from True 1 have "deregister_outputs index bound m =
        m\<lparr>registered := registered m - {Outputs index} - Outputs ` {Suc index..<bound},
          calls := calls m @ Misc_deregister (Outputs index)
                     # map (\<lambda>k. Misc_deregister (Outputs k)) [Suc index..<bound]\<rparr>"
      by (subst deregister_outputs.simps) (simp add: misc_deregister_def)
    then show ?thesis
      by (simp only: sets lists list.map)
  next
    case False
    then show ?thesis
      by (subst deregister_outputs.simps) simp
  qed
qed

lemma deregister_readers_eq:
  "deregister_readers i n m =
     m\<lparr>registered := registered m - Readers ` {i..<n},
       calls := calls m @ map (\<lambda>k. Misc_deregister (Readers k)) [i..<n]\<rparr>"
proof (induction i n m rule: deregister_readers.induct)
  case (1 index bound m)
  show ?case
  proof (cases "index < bound")
    case True
    then have sets: "registered m - {Readers index} - Readers ` {Suc index..<bound}
        = registered m - Readers ` {index..<bound}"
      by auto
    from True have lists: "[index..<bound] = index # [Suc index..<bound]"
      by (rule upt_conv_Cons)
    from True 1 have "deregister_readers index bound m =
        m\<lparr>registered := registered m - {Readers index} - Readers ` {Suc index..<bound},
          calls := calls m @ Misc_deregister (Readers index)
                     # map (\<lambda>k. Misc_deregister (Readers k)) [Suc index..<bound]\<rparr>"
      by (subst deregister_readers.simps) (simp add: misc_deregister_def)
    then show ?thesis
      by (simp only: sets lists list.map)
  next
    case False
    then show ?thesis
      by (subst deregister_readers.simps) simp
  qed
qed

text \<open>
  Claim C8. \<open>remove\<close> calls \<open>misc_deregister\<close> for every output in ascending order and
  then for every reader in ascending order: five calls, \<open>OUTPUTS_COUNT + READERS_COUNT\<close>.
  It does so from every state of the misc core, so also when a slot it deregisters is
  not registered and the call finds nothing to undo; no call ends the sequence early.
  It returns 0.
\<close>

theorem detach_unregisters_all:
  "remove_client device m =
     (0, m\<lparr>registered := registered m - Outputs ` {0..<OUTPUTS_COUNT} - Readers ` {0..<READERS_COUNT},
            calls := calls m @ [Misc_deregister (Outputs 0), Misc_deregister (Outputs 1),
                                Misc_deregister (Outputs 2), Misc_deregister (Readers 0),
                                Misc_deregister (Readers 1)]\<rparr>)"
  by (simp add: remove_client_def deregister_outputs_eq deregister_readers_eq
      OUTPUTS_COUNT_def READERS_COUNT_def upt_conv_Cons)

theorem detach_unregisters_all_witness:
  "remove_client (attached_dev \<lparr>addr = 0x50, adapter = dead_bus\<rparr>)
       \<lparr>registered = {Outputs 1, Readers 1}, calls = []\<rparr>
     = (0, \<lparr>registered = {},
            calls = [Misc_deregister (Outputs 0), Misc_deregister (Outputs 1),
                     Misc_deregister (Outputs 2), Misc_deregister (Readers 0),
                     Misc_deregister (Readers 1)]\<rparr>)"
proof -
  have "{Outputs 1, Readers 1} - Outputs ` {0..<OUTPUTS_COUNT} - Readers ` {0..<READERS_COUNT}
      = ({} :: slot set)"
    by (auto simp: OUTPUTS_COUNT_def READERS_COUNT_def)
  with detach_unregisters_all [where m = "\<lparr>registered = {Outputs 1, Readers 1}, calls = []\<rparr>"
      and device = "attached_dev \<lparr>addr = 0x50, adapter = dead_bus\<rparr>"]
  show ?thesis
    by simp
qed

subsection \<open>Attach\<close>

lemma miscdevice_overwrite:
  "r\<lparr>minor := a, name := b, fops := c\<rparr> = \<lparr>minor = a, name = b, fops = c\<rparr>"
  by (cases r) simp

lemma add_output_ok:
  assumes "kzalloc_ok K (Name_buffer (Outputs n))" and "n < OUTPUTS_COUNT"
  shows "add_output K n (dev, m) =
     Inr (misc_register_ret K (Outputs n),
          dev\<lparr>outputs := (outputs dev)(n := output_misc (ename dev) n)\<rparr>,
          m\<lparr>registered := (if misc_register_ret K (Outputs n) = 0
                             then insert (Outputs n) (registered m) else registered m),
            calls := calls m @ [Misc_register (Outputs n) (output_misc (ename dev) n)]\<rparr>)"
  using assms by (simp add: add_output_def misc_register_def output_misc_def Let_def miscdevice_overwrite)

lemma add_reader_ok:
  assumes "kzalloc_ok K (Name_buffer (Readers n))" and "n < READERS_COUNT"
  shows "add_reader K n (dev, m) =
     Inr (misc_register_ret K (Readers n),
          dev\<lparr>readers := (readers dev)(n := reader_misc (ename dev) n)\<rparr>,
          m\<lparr>registered := (if misc_register_ret K (Readers n) = 0
                             then insert (Readers n) (registered m) else registered m),
            calls := calls m @ [Misc_register (Readers n) (reader_misc (ename dev) n)]\<rparr>)"
  using assms by (simp add: add_reader_def misc_register_def reader_misc_def Let_def miscdevice_overwrite)
lemma probe_outputs_fails:
  assumes allocs: "\<forall>s. kzalloc_ok K (Name_buffer s)"
    and k: "k < OUTPUTS_COUNT"
    and fails: "misc_register_ret K (Outputs k) \<noteq> 0"
    and before: "\<forall>j<k. misc_register_ret K (Outputs j) = 0"
    and "i \<le> k"
  shows "\<exists>dev'. probe_outputs K i (dev, m) =
     Inr (Some (misc_register_ret K (Outputs k)), dev',
          m\<lparr>registered := (registered m \<union> Outputs ` {i..<k}) - Outputs ` {0..<k},
            calls := calls m
              @ map (\<lambda>j. Misc_register (Outputs j) (output_misc (ename dev) j)) [i..<Suc k]
              @ map (\<lambda>j. Misc_deregister (Outputs j)) [0..<k]\<rparr>)"
  using \<open>i \<le> k\<close>
proof (induction i arbitrary: dev m rule: inc_induct)
  case base
  from allocs k fails show ?case
    by (subst probe_outputs.simps) (simp add: add_output_ok deregister_outputs_eq)
next
  case (step n)
  let ?dev = "dev\<lparr>outputs := (outputs dev)(n := output_misc (ename dev) n)\<rparr>"
  let ?m = "m\<lparr>registered := insert (Outputs n) (registered m),
               calls := calls m @ [Misc_register (Outputs n) (output_misc (ename dev) n)]\<rparr>"
  from step.hyps k have n: "n < OUTPUTS_COUNT" by simp
  from step.hyps before have ok: "misc_register_ret K (Outputs n) = 0" by simp
  from allocs n ok have unfold: "probe_outputs K n (dev, m) = probe_outputs K (Suc n) (?dev, ?m)"
    by (subst probe_outputs.simps) (simp add: add_output_ok)
  from step.hyps have sets: "insert (Outputs n) (registered m) \<union> Outputs ` {Suc n..<k}
      = registered m \<union> Outputs ` {n..<k}"
    by auto
  from step.hyps have lists: "[n..<Suc k] = n # [Suc n..<Suc k]"
    by (simp add: upt_conv_Cons)
  have "\<exists>dev'. probe_outputs K (Suc n) (?dev, ?m) =
     Inr (Some (misc_register_ret K (Outputs k)), dev',
          m\<lparr>registered := (insert (Outputs n) (registered m) \<union> Outputs ` {Suc n..<k})
                            - Outputs ` {0..<k},
            calls := calls m
              @ map (\<lambda>j. Misc_register (Outputs j) (output_misc (ename dev) j)) (n # [Suc n..<Suc k])
              @ map (\<lambda>j. Misc_deregister (Outputs j)) [0..<k]\<rparr>)"
    using step.IH [of ?dev ?m] by simp
  then show ?case
    by (simp only: unfold sets lists)
qed

lemma probe_outputs_succeeds:
  assumes allocs: "\<forall>s. kzalloc_ok K (Name_buffer s)"
    and all_ok: "\<forall>j<OUTPUTS_COUNT. misc_register_ret K (Outputs j) = 0"
    and "i \<le> OUTPUTS_COUNT"
  shows "probe_outputs K i (dev, m) =
     Inr (None,
          dev\<lparr>outputs := (\<lambda>j. if i \<le> j \<and> j < OUTPUTS_COUNT
                                then output_misc (ename dev) j else outputs dev j)\<rparr>,
          m\<lparr>registered := registered m \<union> Outputs ` {i..<OUTPUTS_COUNT},
            calls := calls m
              @ map (\<lambda>j. Misc_register (Outputs j) (output_misc (ename dev) j)) [i..<OUTPUTS_COUNT]\<rparr>)"
  using \<open>i \<le> OUTPUTS_COUNT\<close>
proof (induction i arbitrary: dev m rule: inc_induct)
  case base
  have "(\<lambda>j. if OUTPUTS_COUNT \<le> j \<and> j < OUTPUTS_COUNT
             then output_misc (ename dev) j else outputs dev j) = outputs dev"
    by (auto simp: fun_eq_iff)
  then show ?case
    by (subst probe_outputs.simps) simp
next
  case (step n)
  let ?dev = "dev\<lparr>outputs := (outputs dev)(n := output_misc (ename dev) n)\<rparr>"
  let ?m = "m\<lparr>registered := insert (Outputs n) (registered m),
               calls := calls m @ [Misc_register (Outputs n) (output_misc (ename dev) n)]\<rparr>"
  from step.hyps all_ok have ok: "misc_register_ret K (Outputs n) = 0" by simp
  from allocs step.hyps ok have unfold: "probe_outputs K n (dev, m) = probe_outputs K (Suc n) (?dev, ?m)"
    by (subst probe_outputs.simps) (simp add: add_output_ok)
  from step.hyps have sets: "insert (Outputs n) (registered m) \<union> Outputs ` {Suc n..<OUTPUTS_COUNT}
      = registered m \<union> Outputs ` {n..<OUTPUTS_COUNT}"
    by auto
  from step.hyps have lists: "[n..<OUTPUTS_COUNT] = n # [Suc n..<OUTPUTS_COUNT]"
    by (simp add: upt_conv_Cons)
  have funs: "(\<lambda>j. if Suc n \<le> j \<and> j < OUTPUTS_COUNT then output_misc (ename dev) j
                    else ((outputs dev)(n := output_misc (ename dev) n)) j)
      = (\<lambda>j. if n \<le> j \<and> j < OUTPUTS_COUNT then output_misc (ename dev) j else outputs dev j)"
    using step.hyps by (auto simp: fun_eq_iff)
  have "probe_outputs K (Suc n) (?dev, ?m) =
     Inr (None,
          dev\<lparr>outputs := (\<lambda>j. if Suc n \<le> j \<and> j < OUTPUTS_COUNT then output_misc (ename dev) j
                              else ((outputs dev)(n := output_misc (ename dev) n)) j)\<rparr>,
          m\<lparr>registered := insert (Outputs n) (registered m) \<union> Outputs ` {Suc n..<OUTPUTS_COUNT},
            calls := calls m
              @ map (\<lambda>j. Misc_register (Outputs j) (output_misc (ename dev) j))
                  (n # [Suc n..<OUTPUTS_COUNT])\<rparr>)"
    using step.IH [of ?dev ?m] by (simp cong: if_cong)
  then show ?case
    by (simp only: unfold sets lists funs)
qed

lemma probe_readers_fails:
  assumes allocs: "\<forall>s. kzalloc_ok K (Name_buffer s)"
    and k: "k < READERS_COUNT"
    and fails: "misc_register_ret K (Readers k) \<noteq> 0"
    and before: "\<forall>j<k. misc_register_ret K (Readers j) = 0"
    and "i \<le> k"
  shows "\<exists>dev'. probe_readers K i (dev, m) =
     Inr (Some (misc_register_ret K (Readers k)), dev',
          m\<lparr>registered := (registered m \<union> Readers ` {i..<k}) - Readers ` {0..<k}
                            - Outputs ` {0..<OUTPUTS_COUNT},
            calls := calls m
              @ map (\<lambda>j. Misc_register (Readers j) (reader_misc (ename dev) j)) [i..<Suc k]
              @ map (\<lambda>j. Misc_deregister (Readers j)) [0..<k]
              @ map (\<lambda>j. Misc_deregister (Outputs j)) [0..<OUTPUTS_COUNT]\<rparr>)"
  using \<open>i \<le> k\<close>
proof (induction i arbitrary: dev m rule: inc_induct)
  case base
  from allocs k fails show ?case
    by (subst probe_readers.simps) (simp add: add_reader_ok deregister_outputs_eq deregister_readers_eq)
next
  case (step n)
  let ?dev = "dev\<lparr>readers := (readers dev)(n := reader_misc (ename dev) n)\<rparr>"
  let ?m = "m\<lparr>registered := insert (Readers n) (registered m),
               calls := calls m @ [Misc_register (Readers n) (reader_misc (ename dev) n)]\<rparr>"
  from step.hyps k have n: "n < READERS_COUNT" by simp
  from step.hyps before have ok: "misc_register_ret K (Readers n) = 0" by simp
  from allocs n ok have unfold: "probe_readers K n (dev, m) = probe_readers K (Suc n) (?dev, ?m)"
    by (subst probe_readers.simps) (simp add: add_reader_ok)
  from step.hyps have sets: "insert (Readers n) (registered m) \<union> Readers ` {Suc n..<k}
      = registered m \<union> Readers ` {n..<k}"
    by auto
  from step.hyps have lists: "[n..<Suc k] = n # [Suc n..<Suc k]"
    by (simp add: upt_conv_Cons)
  have "\<exists>dev'. probe_readers K (Suc n) (?dev, ?m) =
     Inr (Some (misc_register_ret K (Readers k)), dev',
          m\<lparr>registered := (insert (Readers n) (registered m) \<union> Readers ` {Suc n..<k})
                            - Readers ` {0..<k} - Outputs ` {0..<OUTPUTS_COUNT},
            calls := calls m
              @ map (\<lambda>j. Misc_register (Readers j) (reader_misc (ename dev) j)) (n # [Suc n..<Suc k])
              @ map (\<lambda>j. Misc_deregister (Readers j)) [0..<k]
              @ map (\<lambda>j. Misc_deregister (Outputs j)) [0..<OUTPUTS_COUNT]\<rparr>)"
    using step.IH [of ?dev ?m] by simp
  then show ?case
    by (simp only: unfold sets lists)
qed

lemma probe_readers_succeeds:
  assumes allocs: "\<forall>s. kzalloc_ok K (Name_buffer s)"
    and all_ok: "\<forall>j<READERS_COUNT. misc_register_ret K (Readers j) = 0"
    and "i \<le> READERS_COUNT"
  shows "probe_readers K i (dev, m) =
     Inr (None,
          dev\<lparr>readers := (\<lambda>j. if i \<le> j \<and> j < READERS_COUNT
                                then reader_misc (ename dev) j else readers dev j)\<rparr>,
          m\<lparr>registered := registered m \<union> Readers ` {i..<READERS_COUNT},
            calls := calls m
              @ map (\<lambda>j. Misc_register (Readers j) (reader_misc (ename dev) j)) [i..<READERS_COUNT]\<rparr>)"
  using \<open>i \<le> READERS_COUNT\<close>
proof (induction i arbitrary: dev m rule: inc_induct)
  case base
  have "(\<lambda>j. if READERS_COUNT \<le> j \<and> j < READERS_COUNT
             then reader_misc (ename dev) j else readers dev j) = readers dev"
    by (auto simp: fun_eq_iff)
  then show ?case
    by (subst probe_readers.simps) simp
next
  case (step n)
  let ?dev = "dev\<lparr>readers := (readers dev)(n := reader_misc (ename dev) n)\<rparr>"
  let ?m = "m\<lparr>registered := insert (Readers n) (registered m),
               calls := calls m @ [Misc_register (Readers n) (reader_misc (ename dev) n)]\<rparr>"
  from step.hyps all_ok have ok: "misc_register_ret K (Readers n) = 0" by simp
  from allocs step.hyps ok have unfold: "probe_readers K n (dev, m) = probe_readers K (Suc n) (?dev, ?m)"
    by (subst probe_readers.simps) (simp add: add_reader_ok)
  from step.hyps have sets: "insert (Readers n) (registered m) \<union> Readers ` {Suc n..<READERS_COUNT}
      = registered m \<union> Readers ` {n..<READERS_COUNT}"
    by auto
  from step.hyps have lists: "[n..<READERS_COUNT] = n # [Suc n..<READERS_COUNT]"
    by (simp add: upt_conv_Cons)
  have funs: "(\<lambda>j. if Suc n \<le> j \<and> j < READERS_COUNT then reader_misc (ename dev) j
                    else ((readers dev)(n := reader_misc (ename dev) n)) j)
      = (\<lambda>j. if n \<le> j \<and> j < READERS_COUNT then reader_misc (ename dev) j else readers dev j)"
    using step.hyps by (auto simp: fun_eq_iff)
  have "probe_readers K (Suc n) (?dev, ?m) =
     Inr (None,
          dev\<lparr>readers := (\<lambda>j. if Suc n \<le> j \<and> j < READERS_COUNT then reader_misc (ename dev) j
                              else ((readers dev)(n := reader_misc (ename dev) n)) j)\<rparr>,
          m\<lparr>registered := insert (Readers n) (registered m) \<union> Readers ` {Suc n..<READERS_COUNT},
            calls := calls m
              @ map (\<lambda>j. Misc_register (Readers j) (reader_misc (ename dev) j))
                  (n # [Suc n..<READERS_COUNT])\<rparr>)"
    using step.IH [of ?dev ?m] by (simp cong: if_cong)
  then show ?case
    by (simp only: unfold sets lists funs)
qed

lemma probe_wrong_address:
  "addr c \<noteq> 0x50 \<Longrightarrow> probe K c error m = Inr (error, None, m)"
  by (simp add: probe_def)

text \<open>A successful attach registers the five channels in order, under the names the
  channel files are built from, and leaves the device structure \<open>attached_dev\<close>.\<close>

lemma probe_success:
  assumes "addr c = 0x50" and "\<forall>site. kzalloc_ok K site" and "\<forall>s. misc_register_ret K s = 0"
  shows "probe K c error m =
     Inr (0, Some (attached_dev c),
          m\<lparr>registered := registered m \<union> Outputs ` {0..<OUTPUTS_COUNT} \<union> Readers ` {0..<READERS_COUNT},
            calls := calls m
              @ map (\<lambda>j. Misc_register (Outputs j) (output_misc ''/exp0'' j)) [0..<OUTPUTS_COUNT]
              @ map (\<lambda>j. Misc_register (Readers j) (reader_misc ''/exp0'' j)) [0..<READERS_COUNT]\<rparr>)"
  using assms
  by (simp add: probe_def probe_outputs_succeeds probe_readers_succeeds snprintf_def
      I2C_NAME_SIZE_def attached_dev_def
      cong: if_cong)

lemma output_file_attached:
  "i < OUTPUTS_COUNT \<Longrightarrow> output_file i = misc_open (name (outputs (attached_dev c) i)) (Outputs i)"
  by (simp add: output_file_def attached_dev_def output_misc_def)

lemma reader_file_attached:
  "j < READERS_COUNT \<Longrightarrow> reader_file j = misc_open (name (readers (attached_dev c) j)) (Readers j)"
  by (simp add: reader_file_def attached_dev_def reader_misc_def)

text \<open>
  Claim C7. The code fails it. For a client whose address is not \<open>0x50\<close>, \<open>probe\<close> logs
  a message and executes \<open>return error\<close> before \<open>error\<close> has been assigned: what it
  returns is whatever the uninitialised local holds (lemma \<open>probe_wrong_address\<close>). When
  that is 0, \<open>probe\<close> reports success for a peer it did not recognise. No channel is
  registered and no device structure is allocated, as the claim says.
\<close>

theorem probe_wrong_address_uninitialised:
  "probe K \<lparr>addr = 0x51, adapter = a\<rparr> 0 m = Inr (0, None, m)"
  by (simp add: probe_def)

text \<open>
  Claim C1. Let the client answer at \<open>0x50\<close> and every allocation succeed.

  If registering output \<open>k\<close> fails after outputs \<open>0..k-1\<close> were registered, \<open>probe\<close>
  returns the error of that registration; the calls it made to the misc core are the
  registrations of outputs \<open>0..k\<close> followed by the deregistration of exactly the outputs
  \<open>0..k-1\<close>, in ascending order; no reader was registered.

  If all outputs were registered and registering reader \<open>l\<close> fails after readers
  \<open>0..l-1\<close> were registered, \<open>probe\<close> returns the error of that registration; after the
  registrations it deregisters the readers \<open>0..l-1\<close> and then all \<open>OUTPUTS_COUNT\<close>
  outputs.

  In both cases none of the slots registered by this attach is registered when \<open>probe\<close>
  returns: the set of registered slots is the one before the attach, less those slots.
\<close>

theorem attach_all_or_nothing:
  assumes "addr c = 0x50" and "\<forall>site. kzalloc_ok K site"
  shows "(k < OUTPUTS_COUNT \<and> (\<forall>j<k. misc_register_ret K (Outputs j) = 0)
            \<and> misc_register_ret K (Outputs k) \<noteq> 0 \<longrightarrow>
          (\<exists>dev'. probe K c error m =
             Inr (misc_register_ret K (Outputs k), Some dev',
                  m\<lparr>registered := registered m - Outputs ` {0..<k},
                    calls := calls m
                      @ map (\<lambda>j. Misc_register (Outputs j) (output_misc ''/exp0'' j)) [0..<Suc k]
                      @ map (\<lambda>j. Misc_deregister (Outputs j)) [0..<k]\<rparr>)))
       \<and> (l < READERS_COUNT \<and> (\<forall>j<OUTPUTS_COUNT. misc_register_ret K (Outputs j) = 0)
            \<and> (\<forall>j<l. misc_register_ret K (Readers j) = 0)
            \<and> misc_register_ret K (Readers l) \<noteq> 0 \<longrightarrow>
          (\<exists>dev'. probe K c error m =
             Inr (misc_register_ret K (Readers l), Some dev',
                  m\<lparr>registered := registered m - Readers ` {0..<l} - Outputs ` {0..<OUTPUTS_COUNT},
                    calls := calls m
                      @ map (\<lambda>j. Misc_register (Outputs j) (output_misc ''/exp0'' j)) [0..<OUTPUTS_COUNT]
                      @ map (\<lambda>j. Misc_register (Readers j) (reader_misc ''/exp0'' j)) [0..<Suc l]
                      @ map (\<lambda>j. Misc_deregister (Readers j)) [0..<l]
                      @ map (\<lambda>j. Misc_deregister (Outputs j)) [0..<OUTPUTS_COUNT]\<rparr>)))"
proof (intro conjI impI)
  let ?device = "\<lparr>client = c, outputs = (\<lambda>_. zeroed_miscdevice),
                  readers = (\<lambda>_. zeroed_miscdevice), ename = ''/exp0''\<rparr>"
  from assms(2) have allocs: "\<forall>s. kzalloc_ok K (Name_buffer s)" by simp
  assume "k < OUTPUTS_COUNT \<and> (\<forall>j<k. misc_register_ret K (Outputs j) = 0)
            \<and> misc_register_ret K (Outputs k) \<noteq> 0"
  then have k: "k < OUTPUTS_COUNT" and before: "\<forall>j<k. misc_register_ret K (Outputs j) = 0"
    and fails: "misc_register_ret K (Outputs k) \<noteq> 0"
    by simp_all
  have sets: "registered m \<union> Outputs ` {0..<k} - Outputs ` {0..<k}
      = registered m - Outputs ` {0..<k}"
    by auto
  from probe_outputs_fails [OF allocs k fails before le0, of ?device m]
  obtain dev' where "probe_outputs K 0 (?device, m) =
      Inr (Some (misc_register_ret K (Outputs k)), dev',
           m\<lparr>registered := registered m - Outputs ` {0..<k},
             calls := calls m
               @ map (\<lambda>j. Misc_register (Outputs j) (output_misc ''/exp0'' j)) [0..<Suc k]
               @ map (\<lambda>j. Misc_deregister (Outputs j)) [0..<k]\<rparr>)"
    by (auto simp only: sets expansion_dev.simps)
  with assms show "\<exists>dev'. probe K c error m =
           Inr (misc_register_ret K (Outputs k), Some dev',
                m\<lparr>registered := registered m - Outputs ` {0..<k},
                  calls := calls m
                    @ map (\<lambda>j. Misc_register (Outputs j) (output_misc ''/exp0'' j)) [0..<Suc k]
                    @ map (\<lambda>j. Misc_deregister (Outputs j)) [0..<k]\<rparr>)"
    by (simp add: probe_def snprintf_def I2C_NAME_SIZE_def)
next
  let ?device = "\<lparr>client = c, outputs = (\<lambda>_. zeroed_miscdevice),
                  readers = (\<lambda>_. zeroed_miscdevice), ename = ''/exp0''\<rparr>"
  let ?device3 = "?device\<lparr>outputs := (\<lambda>j. if 0 \<le> j \<and> j < OUTPUTS_COUNT
                              then output_misc (ename ?device) j else outputs ?device j)\<rparr>"
  let ?m3 = "m\<lparr>registered := registered m \<union> Outputs ` {0..<OUTPUTS_COUNT},
          calls := calls m
            @ map (\<lambda>j. Misc_register (Outputs j) (output_misc (ename ?device) j)) [0..<OUTPUTS_COUNT]\<rparr>"
  from assms(2) have allocs: "\<forall>s. kzalloc_ok K (Name_buffer s)" by simp
  assume "l < READERS_COUNT \<and> (\<forall>j<OUTPUTS_COUNT. misc_register_ret K (Outputs j) = 0)
          \<and> (\<forall>j<l. misc_register_ret K (Readers j) = 0)
          \<and> misc_register_ret K (Readers l) \<noteq> 0"
  then have l: "l < READERS_COUNT" and outs: "\<forall>j<OUTPUTS_COUNT. misc_register_ret K (Outputs j) = 0"
    and before: "\<forall>j<l. misc_register_ret K (Readers j) = 0"
    and fails: "misc_register_ret K (Readers l) \<noteq> 0"
    by simp_all
  have first: "probe_outputs K 0 (?device, m) = Inr (None, ?device3, ?m3)"
    by (rule probe_outputs_succeeds [OF allocs outs le0])
  have sets: "registered m \<union> Outputs ` {0..<OUTPUTS_COUNT} \<union> Readers ` {0..<l}
        - Readers ` {0..<l} - Outputs ` {0..<OUTPUTS_COUNT}
      = registered m - Readers ` {0..<l} - Outputs ` {0..<OUTPUTS_COUNT}"
    by auto
  from probe_readers_fails [OF allocs l fails before le0, of ?device3 ?m3]
  obtain dev' where "probe_readers K 0 (?device3, ?m3) =
      Inr (Some (misc_register_ret K (Readers l)), dev',
           m\<lparr>registered := registered m - Readers ` {0..<l} - Outputs ` {0..<OUTPUTS_COUNT},
             calls := calls m
               @ map (\<lambda>j. Misc_register (Outputs j) (output_misc ''/exp0'' j)) [0..<OUTPUTS_COUNT]
               @ map (\<lambda>j. Misc_register (Readers j) (reader_misc ''/exp0'' j)) [0..<Suc l]
               @ map (\<lambda>j. Misc_deregister (Readers j)) [0..<l]
               @ map (\<lambda>j. Misc_deregister (Outputs j)) [0..<OUTPUTS_COUNT]\<rparr>)"
    by (auto simp: sets)
  with assms first show "\<exists>dev'. probe K c error m =
           Inr (misc_register_ret K (Readers l), Some dev',
                m\<lparr>registered := registered m - Readers ` {0..<l} - Outputs ` {0..<OUTPUTS_COUNT},
                  calls := calls m
                    @ map (\<lambda>j. Misc_register (Outputs j) (output_misc ''/exp0'' j)) [0..<OUTPUTS_COUNT]
                    @ map (\<lambda>j. Misc_register (Readers j) (reader_misc ''/exp0'' j)) [0..<Suc l]
                    @ map (\<lambda>j. Misc_deregister (Readers j)) [0..<l]
                    @ map (\<lambda>j. Misc_deregister (Outputs j)) [0..<OUTPUTS_COUNT]\<rparr>)"
    by (simp add: probe_def snprintf_def I2C_NAME_SIZE_def)
qed

theorem attach_all_or_nothing_witness:
  "(\<exists>dev'. probe (failing_at (Outputs 1) (- 16)) \<lparr>addr = 0x50, adapter = dead_bus\<rparr> 0
              \<lparr>registered = {}, calls = []\<rparr> =
      Inr (- 16, Some dev',
           \<lparr>registered = {},
            calls = [Misc_register (Outputs 0) (output_misc ''/exp0'' 0),
                     Misc_register (Outputs 1) (output_misc ''/exp0'' 1),
                     Misc_deregister (Outputs 0)]\<rparr>))
   \<and> (\<exists>dev'. probe (failing_at (Readers 1) (- 16)) \<lparr>addr = 0x50, adapter = dead_bus\<rparr> 0
              \<lparr>registered = {}, calls = []\<rparr> =
      Inr (- 16, Some dev',
           \<lparr>registered = {},
            calls = [Misc_register (Outputs 0) (output_misc ''/exp0'' 0),
                     Misc_register (Outputs 1) (output_misc ''/exp0'' 1),
                     Misc_register (Outputs 2) (output_misc ''/exp0'' 2),
                     Misc_register (Readers 0) (reader_misc ''/exp0'' 0),
                     Misc_register (Readers 1) (reader_misc ''/exp0'' 1),
                     Misc_deregister (Readers 0),
                     Misc_deregister (Outputs 0),
                     Misc_deregister (Outputs 1),
                     Misc_deregister (Outputs 2)]\<rparr>))"
proof -
  have out: "\<exists>dev'. probe (failing_at (Outputs 1) (- 16)) \<lparr>addr = 0x50, adapter = dead_bus\<rparr> 0
              \<lparr>registered = {}, calls = []\<rparr> =
      Inr (- 16, Some dev',
           \<lparr>registered = {},
            calls = [Misc_register (Outputs 0) (output_misc ''/exp0'' 0),
                     Misc_register (Outputs 1) (output_misc ''/exp0'' 1),
                     Misc_deregister (Outputs 0)]\<rparr>)"
    using attach_all_or_nothing [where K = "failing_at (Outputs 1) (- 16)" and k = 1 and l = 0
        and c = "\<lparr>addr = 0x50, adapter = dead_bus\<rparr>" and error = 0
        and m = "\<lparr>registered = {}, calls = []\<rparr>", THEN conjunct1]
    by (simp add: failing_at_def OUTPUTS_COUNT_def upt_conv_Cons)
  have rd: "\<exists>dev'. probe (failing_at (Readers 1) (- 16)) \<lparr>addr = 0x50, adapter = dead_bus\<rparr> 0
              \<lparr>registered = {}, calls = []\<rparr> =
      Inr (- 16, Some dev',
           \<lparr>registered = {},
            calls = [Misc_register (Outputs 0) (output_misc ''/exp0'' 0),
                     Misc_register (Outputs 1) (output_misc ''/exp0'' 1),
                     Misc_register (Outputs 2) (output_misc ''/exp0'' 2),
                     Misc_register (Readers 0) (reader_misc ''/exp0'' 0),
                     Misc_register (Readers 1) (reader_misc ''/exp0'' 1),
                     Misc_deregister (Readers 0),
                     Misc_deregister (Outputs 0),
                     Misc_deregister (Outputs 1),
                     Misc_deregister (Outputs 2)]\<rparr>)"
    using attach_all_or_nothing [where K = "failing_at (Readers 1) (- 16)" and l = 1 and k = 0
        and c = "\<lparr>addr = 0x50, adapter = dead_bus\<rparr>" and error = 0
        and m = "\<lparr>registered = {}, calls = []\<rparr>", THEN conjunct2]
    by (simp add: failing_at_def OUTPUTS_COUNT_def READERS_COUNT_def upt_conv_Cons numeral_2_eq_2)
  from out rd show ?thesis ..
qed

end
